theory Spec2Isabelle
  imports Complex_Main "HOL-Library.Word" "HOL-Library.Product_Lexorder"
begin

unbundle bit_operations_syntax

section \<open>Data model\<close>

text \<open>
  A product is a Python dict. Every key the analyzer reads or writes is a field of the
  record; a field is \<open>None\<close> when the key is absent (or, for \<open>price\<close> and
  \<open>rating\<close>, when it holds Python's \<open>None\<close>: the code reads both through
  \<open>dict.get\<close> and cannot tell them apart). Keys the analyzer neither reads nor writes
  (\<open>url\<close>, \<open>image_url\<close>, the review lists) are left out. Numbers are real numbers: the
  arithmetic of the code is modelled exactly.
\<close>

record product =
  name :: "string option"
  price :: "real option"
  rating :: "real option"
  review_count :: "int option"
  features :: "string list option"
  platform :: "string option"
  over_budget :: "bool option"
  preference_score :: "real option"
  matched_preferences :: "string list option"
  review_score :: "real option"
  price_score :: "real option"
  combined_score :: "real option"

text \<open>The settings of \<open>config.py\<close> that the analyzer and the engine read.\<close>

record config =
  BUDGET_FLEXIBILITY :: real
  MIN_REVIEWS :: int
  TOP_RECOMMENDATIONS :: nat

definition default_config :: config where
  "default_config = \<lparr>BUDGET_FLEXIBILITY = 1 / 10, MIN_REVIEWS = 10, TOP_RECOMMENDATIONS = 5\<rparr>"

section \<open>ProductAnalyzer.filter\_by\_budget\<close>

text \<open>
  One iteration of the loop over \<open>products\<close>. The state is the pair
  \<open>(filtered_products, over_budget_products)\<close>; \<open>append\<close> adds at the end. A product
  put into the second pool is first marked \<open>over_budget = True\<close>.
\<close>

definition budget_step ::
  "real \<Rightarrow> real \<Rightarrow> product list \<times> product list \<Rightarrow> product \<Rightarrow> product list \<times> product list" where
  "budget_step budget max_price acc p =
     (case price p of
        None \<Rightarrow> acc
      | Some x \<Rightarrow>
          if x \<le> budget then (fst acc @ [p], snd acc)
          else if x \<le> max_price then (fst acc, snd acc @ [p\<lparr>over_budget := Some True\<rparr>])
          else acc)"

text \<open>
  The sort key \<open>p.get('price', float('inf'))\<close>: a missing price sorts after every
  number. The first component of the pair is \<open>True\<close> exactly for the infinite key.
\<close>

definition price_key :: "product \<Rightarrow> bool \<times> real" where
  "price_key p = (case price p of None \<Rightarrow> (True, 0) | Some x \<Rightarrow> (False, x))"

definition filter_by_budget :: "config \<Rightarrow> product list \<Rightarrow> real \<Rightarrow> product list" where
  "filter_by_budget cfg products budget =
     (let max_price = budget * (1 + BUDGET_FLEXIBILITY cfg);
          pools = foldl (budget_step budget max_price) ([], []) products;
          filtered_products = fst pools;
          over_budget_products = snd pools
      in if length filtered_products < 3 \<and> over_budget_products \<noteq> []
         then filtered_products @
              take (3 - length filtered_products) (sort_key price_key over_budget_products)
         else filtered_products)"

text \<open>The two pools, described without the loop.\<close>

definition within_budget :: "real \<Rightarrow> product \<Rightarrow> bool" where
  "within_budget budget p = (case price p of None \<Rightarrow> False | Some x \<Rightarrow> x \<le> budget)"

definition within_flexibility :: "real \<Rightarrow> real \<Rightarrow> product \<Rightarrow> bool" where
  "within_flexibility budget max_price p =
     (case price p of None \<Rightarrow> False | Some x \<Rightarrow> budget < x \<and> x \<le> max_price)"

definition mark_over_budget :: "product \<Rightarrow> product" where
  "mark_over_budget p = p\<lparr>over_budget := Some True\<rparr>"

lemma budget_step_pools:
  "budget_step b m (fs, os) p =
     (fs @ filter (within_budget b) [p],
      os @ map mark_over_budget (filter (within_flexibility b m) [p]))"
  by (cases "price p")
    (simp_all add: budget_step_def within_budget_def within_flexibility_def
      mark_over_budget_def)

lemma budget_pools_acc:
  "foldl (budget_step b m) (fs, os) ps =
     (fs @ filter (within_budget b) ps,
      os @ map mark_over_budget (filter (within_flexibility b m) ps))"
proof (induction ps arbitrary: fs os)
  case Nil
  show ?case by simp
next
  case (Cons p ps)
  have "foldl (budget_step b m) (fs, os) (p # ps) =
        foldl (budget_step b m) (budget_step b m (fs, os) p) ps"
    by simp
  also have "\<dots> = (fs @ filter (within_budget b) (p # ps),
      os @ map mark_over_budget (filter (within_flexibility b m) (p # ps)))"
    unfolding budget_step_pools Cons.IH by simp
  finally show ?case .
qed

lemma budget_pools:
  "foldl (budget_step b m) ([], []) ps =
     (filter (within_budget b) ps, map mark_over_budget (filter (within_flexibility b m) ps))"
  by (simp add: budget_pools_acc)

lemma filter_by_budget_pools:
  "filter_by_budget cfg ps b =
     filter (within_budget b) ps @
     take (3 - length (filter (within_budget b) ps))
       (sort_key price_key
          (map mark_over_budget
             (filter (within_flexibility b (b * (1 + BUDGET_FLEXIBILITY cfg))) ps)))"
  by (auto simp: filter_by_budget_def Let_def budget_pools)

lemma price_mark_over_budget [simp]: "price (mark_over_budget p) = price p"
  by (simp add: mark_over_budget_def)

lemma over_budget_mark_over_budget [simp]: "over_budget (mark_over_budget p) = Some True"
  by (simp add: mark_over_budget_def)

lemma within_budget_mark [simp]: "within_budget b (mark_over_budget p) = within_budget b p"
  by (simp add: within_budget_def)

lemma within_flexibility_mark [simp]:
  "within_flexibility b m (mark_over_budget p) = within_flexibility b m p"
  by (simp add: within_flexibility_def)

lemma set_backfill:
  "set (take k (sort_key price_key (map mark_over_budget (filter (within_flexibility b m) ps))))
     \<subseteq> mark_over_budget ` {p \<in> set ps. within_flexibility b m p}"
proof -
  have "set (take k (sort_key price_key (map mark_over_budget (filter (within_flexibility b m) ps))))
          \<subseteq> set (sort_key price_key (map mark_over_budget (filter (within_flexibility b m) ps)))"
    by (rule set_take_subset)
  then show ?thesis by auto
qed

lemma pools_partition:
  "b \<le> m \<Longrightarrow>
     length (filter (within_budget m) ps) =
     length (filter (within_budget b) ps) + length (filter (within_flexibility b m) ps)"
  by (induction ps) (auto simp: within_budget_def within_flexibility_def split: option.splits)

lemma sorted_backfill: "sorted (map price_key (take k (sort_key price_key os)))"
proof -
  have "sorted (take k (map price_key (sort_key price_key os)))"
    by (rule sorted_wrt_take) simp
  then show ?thesis by (simp add: take_map)
qed

section \<open>Strings\<close>

text \<open>
  Strings are lists of characters. The model is exact on ASCII text, where \<open>str.lower\<close>
  maps \<open>A\<close>..\<open>Z\<close> to \<open>a\<close>..\<open>z\<close> and leaves every other character alone. On
  text outside ASCII Python's \<open>str.lower\<close> also changes letters, and not always
  character by character (a capital sigma becomes a final sigma by its context), so it
  does not distribute over concatenation there; \<open>is_ascii\<close> marks the strings on which
  the model and the code agree.
\<close>

definition lower_char :: "char \<Rightarrow> char" where
  "lower_char c =
     (case map_of (zip ''ABCDEFGHIJKLMNOPQRSTUVWXYZ'' ''abcdefghijklmnopqrstuvwxyz'') c of
        None \<Rightarrow> c
      | Some l \<Rightarrow> l)"

definition py_lower :: "string \<Rightarrow> string" where
  "py_lower s = map lower_char s"

text \<open>An ASCII string: the eighth bit of every character is clear.\<close>

definition is_ascii :: "string \<Rightarrow> bool" where
  "is_ascii s = list_all (\<lambda>c. \<not> digit7 c) s"

text \<open>\<open>sub in s\<close>: \<open>sub\<close> occurs in \<open>s\<close> as a contiguous substring.\<close>

fun py_in :: "string \<Rightarrow> string \<Rightarrow> bool" where
  "py_in sub [] = (sub = [])"
| "py_in sub (c # cs) = (take (length sub) (c # cs) = sub \<or> py_in sub cs)"

text \<open>
  The characters \<open>str.split()\<close> splits at: tab, line feed, vertical tab, form feed,
  carriage return, the four separators \<open>0x1c\<close>..\<open>0x1f\<close> and the space.
\<close>

definition is_space :: "char \<Rightarrow> bool" where
  "is_space c =
     (c \<in> set [CHR 0x09, CHR 0x0A, CHR 0x0B, CHR 0x0C, CHR 0x0D,
                CHR 0x1C, CHR 0x1D, CHR 0x1E, CHR 0x1F, CHR 0x20])"

text \<open>\<open>s.split()\<close>: the maximal runs of characters that are not white space.\<close>

fun split_ws :: "string \<Rightarrow> string \<Rightarrow> string list" where
  "split_ws w [] = (if w = [] then [] else [w])"
| "split_ws w (c # cs) =
     (if is_space c then (if w = [] then split_ws [] cs else w # split_ws [] cs)
      else split_ws (w @ [c]) cs)"

definition py_split :: "string \<Rightarrow> string list" where
  "py_split s = split_ws [] s"

fun py_join :: "string \<Rightarrow> string list \<Rightarrow> string" where
  "py_join sep [] = []"
| "py_join sep [x] = x"
| "py_join sep (x # y # ys) = x @ sep @ py_join sep (y # ys)"

section \<open>ProductAnalyzer.score\_by\_preferences\<close>

definition product_text :: "product \<Rightarrow> string" where
  "product_text p =
     py_lower (case name p of None \<Rightarrow> [] | Some n \<Rightarrow> n) @ '' '' @
     py_join '' '' (map py_lower (case features p of None \<Rightarrow> [] | Some fs \<Rightarrow> fs))"

text \<open>
  One iteration of the loop over the preferences; the state is
  \<open>(preference_score, matched_preferences)\<close>.
\<close>

definition preference_step :: "string \<Rightarrow> real \<times> string list \<Rightarrow> string \<Rightarrow> real \<times> string list" where
  "preference_step text acc preference =
     (let pref_lower = py_lower preference in
      if py_in pref_lower text then (fst acc + 1, snd acc @ [preference])
      else
        let pref_words = py_split pref_lower in
        if 1 < length pref_words then
          let matches = length (filter (\<lambda>word. py_in word text) pref_words) in
          if 1 / 2 \<le> real matches / real (length pref_words)
          then (fst acc + 1 / 2, snd acc @ [preference])
          else acc
        else acc)"

definition score_product :: "string list \<Rightarrow> product \<Rightarrow> product" where
  "score_product preferences p =
     (let acc = foldl (preference_step (product_text p)) (0, []) preferences
      in p\<lparr>preference_score := Some (fst acc), matched_preferences := Some (snd acc)\<rparr>)"

definition score_by_preferences :: "product list \<Rightarrow> string list \<Rightarrow> product list" where
  "score_by_preferences products preferences =
     (if preferences = []
      then map (\<lambda>p. p\<lparr>preference_score := Some 0, matched_preferences := Some []\<rparr>) products
      else map (score_product preferences) products)"

section \<open>ProductAnalyzer.calculate\_review\_score\<close>

definition calculate_review_score :: "config \<Rightarrow> product \<Rightarrow> real" where
  "calculate_review_score cfg p =
     (let review_count = (case review_count p of None \<Rightarrow> 0 | Some n \<Rightarrow> n) in
      case rating p of
        None \<Rightarrow> 0
      | Some base_score \<Rightarrow>
          if review_count < MIN_REVIEWS cfg then 0
          else base_score +
            (if 0 < review_count then min 1 (log 10 (real_of_int review_count) / 3) else 0))"

section \<open>ProductAnalyzer.rank\_products\<close>

text \<open>
  The price score of the ranking loop. \<open>product.get('price', budget)\<close> falls back to the
  budget for a product without a price.
\<close>

definition compute_price_score :: "product \<Rightarrow> real \<Rightarrow> real" where
  "compute_price_score p budget =
     (let price = (case price p of None \<Rightarrow> budget | Some x \<Rightarrow> x) in
      if price \<le> 0 then 0
      else
        let price_ratio = price / budget in
        if price_ratio \<le> 1 then 1 - price_ratio * (1 / 2)
        else max 0 (1 / 2 - (price_ratio - 1) * 2))"

definition add_scores :: "config \<Rightarrow> real \<Rightarrow> product \<Rightarrow> product" where
  "add_scores cfg budget p =
     (let preference_score = (case preference_score p of None \<Rightarrow> 0 | Some s \<Rightarrow> s);
          review_score = calculate_review_score cfg p;
          price_score = compute_price_score p budget;
          combined_score = preference_score * 2 + review_score * (8 / 10) + price_score * 2
      in p\<lparr>combined_score := Some combined_score,
            review_score := Some review_score,
            price_score := Some price_score\<rparr>)"

text \<open>
  \<open>sorted(xs, key=key, reverse=True)\<close>: Python sorts the reversed list with its stable
  sort and reverses the result, so that equal keys keep their order.
\<close>

definition sorted_reverse :: "('a \<Rightarrow> 'k::linorder) \<Rightarrow> 'a list \<Rightarrow> 'a list" where
  "sorted_reverse key xs = rev (sort_key key (rev xs))"

definition combined_key :: "product \<Rightarrow> real" where
  "combined_key p = (case combined_score p of None \<Rightarrow> 0 | Some c \<Rightarrow> c)"

definition scored_products :: "config \<Rightarrow> product list \<Rightarrow> real \<Rightarrow> string list \<Rightarrow> product list" where
  "scored_products cfg products budget preferences =
     map (add_scores cfg budget)
       (score_by_preferences (filter_by_budget cfg products budget) preferences)"

definition rank_products :: "config \<Rightarrow> product list \<Rightarrow> real \<Rightarrow> string list \<Rightarrow> product list" where
  "rank_products cfg products budget preferences =
     sorted_reverse combined_key (scored_products cfg products budget preferences)"

text \<open>
  \<open>price / budget\<close> would raise \<open>ZeroDivisionError\<close> for the budget 0. The ranking never
  gets there: with the budget 0 only products with a price of at most 0 pass the filter,
  and those are scored before the division.
\<close>

lemma no_division_by_zero:
  assumes "p \<in> set (filter_by_budget cfg ps 0)" and "price p = Some x"
  shows "x \<le> 0"
proof -
  from assms(1) consider
      "p \<in> set (filter (within_budget 0) ps)"
    | "p \<in> set (take (3 - length (filter (within_budget 0) ps))
         (sort_key price_key
            (map mark_over_budget (filter (within_flexibility 0 (0 * (1 + BUDGET_FLEXIBILITY cfg))) ps))))"
    unfolding filter_by_budget_pools by auto
  then show ?thesis
  proof cases
    case 1
    with assms(2) show ?thesis by (simp add: within_budget_def)
  next
    case 2
    then have "p \<in> mark_over_budget `
        {q \<in> set ps. within_flexibility 0 (0 * (1 + BUDGET_FLEXIBILITY cfg)) q}"
      using set_backfill by blast
    with assms(2) show ?thesis
      by (auto simp: within_flexibility_def split: option.splits)
  qed
qed

section \<open>Concrete products\<close>

text \<open>A freshly collected product that carries only a name and a price.\<close>

definition mk_product :: "string \<Rightarrow> real option \<Rightarrow> product" where
  "mk_product n pr =
     \<lparr>name = Some n, price = pr, rating = None, review_count = None, features = None,
      platform = None, over_budget = None, preference_score = None,
      matched_preferences = None, review_score = None, price_score = None,
      combined_score = None\<rparr>"

definition shelf :: "product list" where
  "shelf = [mk_product ''Mouse'' (Some 50), mk_product ''Keyboard'' (Some 108),
            mk_product ''Monitor'' (Some 200), mk_product ''Headset'' (Some 105),
            mk_product ''Cable'' None]"

section \<open>The budget filter: bound, size and backfill\<close>

definition primary_pool :: "real \<Rightarrow> product list \<Rightarrow> product list" where
  "primary_pool budget ps = filter (within_budget budget) ps"

definition secondary_pool :: "config \<Rightarrow> real \<Rightarrow> product list \<Rightarrow> product list" where
  "secondary_pool cfg budget ps =
     map mark_over_budget
       (filter (within_flexibility budget (budget * (1 + BUDGET_FLEXIBILITY cfg))) ps)"

lemma filter_by_budget_backfill:
  "filter_by_budget cfg ps budget =
     primary_pool budget ps @
     take (3 - length (primary_pool budget ps)) (sort_key price_key (secondary_pool cfg budget ps))"
  by (simp add: filter_by_budget_pools primary_pool_def secondary_pool_def)

lemma length_filter_by_budget:
  "length (filter_by_budget cfg ps budget) =
     (if 3 \<le> length (primary_pool budget ps) then length (primary_pool budget ps)
      else min 3 (length (primary_pool budget ps) + length (secondary_pool cfg budget ps)))"
  by (auto simp: filter_by_budget_backfill)

lemma filter_by_budget_priced:
  assumes "budget \<le> m" and "m = budget * (1 + BUDGET_FLEXIBILITY cfg)"
    and "p \<in> set (filter_by_budget cfg ps budget)"
  shows "within_budget m p"
proof -
  from assms(3) consider
      (primary) "p \<in> set (primary_pool budget ps)"
    | (backfill) "p \<in> set (take (3 - length (primary_pool budget ps))
                      (sort_key price_key (secondary_pool cfg budget ps)))"
    by (auto simp: filter_by_budget_backfill)
  then show ?thesis
  proof cases
    case primary
    with assms(1) show ?thesis
      by (auto simp: primary_pool_def within_budget_def split: option.splits)
  next
    case backfill
    then have "p \<in> mark_over_budget ` {q \<in> set ps. within_flexibility budget m q}"
      using set_backfill [of "3 - length (primary_pool budget ps)" budget m ps]
      by (auto simp: secondary_pool_def assms(2))
    then show ?thesis
      by (auto simp: within_flexibility_def within_budget_def split: option.splits)
  qed
qed

text \<open>
  C1. For a positive budget (and the non-negative flexibility of the configuration),
  \<open>filter_by_budget\<close> returns only products that have a price, and that price is at most
  \<open>budget * (1 + flexibility)\<close>. Whenever at least three products of the input have such
  a price, the result has at least \<open>min 3 (length products)\<close> entries. The result is the
  within-budget pool followed by the cheapest members of the pool of products over budget
  but within the flexibility, taken in ascending price order until the result has three
  members or that pool is used up.
\<close>

theorem filter_by_budget_bounded_backfill:
  assumes "0 < budget" and "0 \<le> BUDGET_FLEXIBILITY cfg"
  shows "(\<forall>p \<in> set (filter_by_budget cfg ps budget).
            \<exists>x. price p = Some x \<and> x \<le> budget * (1 + BUDGET_FLEXIBILITY cfg)) \<and>
         (3 \<le> length (filter (within_budget (budget * (1 + BUDGET_FLEXIBILITY cfg))) ps) \<longrightarrow>
            min 3 (length ps) \<le> length (filter_by_budget cfg ps budget)) \<and>
         filter_by_budget cfg ps budget =
           primary_pool budget ps @
           take (3 - length (primary_pool budget ps))
             (sort_key price_key (secondary_pool cfg budget ps)) \<and>
         sorted (map price_key (sort_key price_key (secondary_pool cfg budget ps))) \<and>
         length (filter_by_budget cfg ps budget) =
           (if 3 \<le> length (primary_pool budget ps) then length (primary_pool budget ps)
            else min 3 (length (primary_pool budget ps) +
                        length (secondary_pool cfg budget ps)))"
proof -
  let ?m = "budget * (1 + BUDGET_FLEXIBILITY cfg)"
  have le: "budget \<le> ?m"
  proof -
    have "0 \<le> budget * BUDGET_FLEXIBILITY cfg"
      using assms by simp
    then show ?thesis by (simp add: algebra_simps)
  qed
  have bound: "\<forall>p \<in> set (filter_by_budget cfg ps budget). \<exists>x. price p = Some x \<and> x \<le> ?m"
  proof
    fix p
    assume "p \<in> set (filter_by_budget cfg ps budget)"
    then have "within_budget ?m p"
      using le by (rule filter_by_budget_priced [OF _ refl, rotated])
    then show "\<exists>x. price p = Some x \<and> x \<le> ?m"
      by (cases "price p") (simp_all add: within_budget_def)
  qed
  have size: "min 3 (length ps) \<le> length (filter_by_budget cfg ps budget)"
    if "3 \<le> length (filter (within_budget ?m) ps)"
  proof -
    have "length (filter (within_budget ?m) ps) =
          length (primary_pool budget ps) + length (secondary_pool cfg budget ps)"
      using pools_partition [OF le, of ps] by (simp add: primary_pool_def secondary_pool_def)
    with that have "3 \<le> length (filter_by_budget cfg ps budget)"
      unfolding length_filter_by_budget by (simp split: if_splits)
    then show ?thesis by simp
  qed
  show ?thesis
    using bound size filter_by_budget_backfill [of cfg ps budget]
      length_filter_by_budget [of cfg ps budget]
    by simp
qed

theorem filter_by_budget_bounded_backfill_witness:
  "0 < (100::real) \<and> 0 \<le> BUDGET_FLEXIBILITY default_config \<and>
   3 \<le> length (filter (within_budget (100 * (1 + BUDGET_FLEXIBILITY default_config))) shelf) \<and>
   min 3 (length shelf) \<le> length (filter_by_budget default_config shelf 100) \<and>
   map name (filter_by_budget default_config shelf 100) =
     [Some ''Mouse'', Some ''Headset'', Some ''Keyboard'']"
proof -
  have h1: "0 < (100::real)" by simp
  have h2: "0 \<le> BUDGET_FLEXIBILITY default_config" by (simp add: default_config_def)
  have h3: "3 \<le> length (filter (within_budget (100 * (1 + BUDGET_FLEXIBILITY default_config))) shelf)"
    by (simp add: shelf_def within_budget_def default_config_def mk_product_def)
  have ex: "map name (filter_by_budget default_config shelf 100) =
     [Some ''Mouse'', Some ''Headset'', Some ''Keyboard'']"
    by (simp add: shelf_def filter_by_budget_def budget_step_def price_key_def
        default_config_def mk_product_def Let_def)
  show ?thesis
    using h1 h2 h3 ex filter_by_budget_bounded_backfill [OF h1 h2, of shelf]
    by blast
qed

section \<open>The budget filter: order and flags\<close>

text \<open>A product that already carries the flag, as an earlier call with a smaller budget leaves it.\<close>

definition stale :: product where
  "stale = (mk_product ''Phone'' (Some 50))\<lparr>over_budget := Some True\<rparr>"

definition backfill :: "config \<Rightarrow> real \<Rightarrow> product list \<Rightarrow> product list" where
  "backfill cfg budget ps =
     take (3 - length (primary_pool budget ps)) (sort_key price_key (secondary_pool cfg budget ps))"

lemma backfill_members:
  assumes "p \<in> set (backfill cfg budget ps)"
  shows "\<not> within_budget budget p \<and> over_budget p = Some True \<and> price p \<noteq> None"
proof -
  have "p \<in> mark_over_budget `
          {q \<in> set ps. within_flexibility budget (budget * (1 + BUDGET_FLEXIBILITY cfg)) q}"
    using assms set_backfill [of "3 - length (primary_pool budget ps)" budget
        "budget * (1 + BUDGET_FLEXIBILITY cfg)" ps]
    by (auto simp: backfill_def secondary_pool_def)
  then show ?thesis
    by (auto simp: within_flexibility_def within_budget_def split: option.splits)
qed

text \<open>
  C10 (amended). The result of \<open>filter_by_budget\<close> is the within-budget products, as
  they are in the input and in their input order, followed by the backfilled products in
  ascending price order. Every backfilled product is over budget, and every product of the
  result that is over budget carries \<open>over_budget = True\<close>. The within-budget products
  are returned untouched: they carry no flag when no product of the input carried one.
\<close>

theorem filter_by_budget_order_and_flags:
  "filter_by_budget cfg ps budget = filter (within_budget budget) ps @ backfill cfg budget ps \<and>
   sorted (map price_key (backfill cfg budget ps)) \<and>
   (\<forall>p \<in> set (backfill cfg budget ps). \<not> within_budget budget p \<and> price p \<noteq> None) \<and>
   (\<forall>p \<in> set (filter_by_budget cfg ps budget).
      \<not> within_budget budget p \<longrightarrow> over_budget p = Some True) \<and>
   ((\<forall>p \<in> set ps. over_budget p = None) \<longrightarrow>
      (\<forall>p \<in> set (filter_by_budget cfg ps budget).
         within_budget budget p \<longrightarrow> over_budget p = None))"
proof -
  have layout: "filter_by_budget cfg ps budget =
      filter (within_budget budget) ps @ backfill cfg budget ps"
    by (simp add: filter_by_budget_backfill backfill_def primary_pool_def)
  have asc: "sorted (map price_key (backfill cfg budget ps))"
    unfolding backfill_def by (rule sorted_backfill)
  have over: "\<forall>p \<in> set (backfill cfg budget ps). \<not> within_budget budget p \<and> price p \<noteq> None"
    using backfill_members by blast
  have flagged: "\<forall>p \<in> set (filter_by_budget cfg ps budget).
      \<not> within_budget budget p \<longrightarrow> over_budget p = Some True"
    unfolding layout using backfill_members by auto
  have unflagged: "\<forall>p \<in> set (filter_by_budget cfg ps budget).
         within_budget budget p \<longrightarrow> over_budget p = None"
    if "\<forall>p \<in> set ps. over_budget p = None"
    unfolding layout using that backfill_members by auto
  show ?thesis
    using layout asc over flagged unflagged by blast
qed

theorem filter_by_budget_order_and_flags_witness:
  "list_all (\<lambda>p. over_budget p = None) shelf \<and>
   map name (filter_by_budget default_config shelf 100) =
     [Some ''Mouse'', Some ''Headset'', Some ''Keyboard''] \<and>
   map over_budget (filter_by_budget default_config shelf 100) = [None, Some True, Some True] \<and>
   list_all (\<lambda>p. within_budget 100 p = (over_budget p = None))
     (filter_by_budget default_config shelf 100)"
proof -
  have h: "\<forall>p \<in> set shelf. over_budget p = None"
    by (simp add: shelf_def mk_product_def)
  have ex: "filter_by_budget default_config shelf 100 =
      [mk_product ''Mouse'' (Some 50), mark_over_budget (mk_product ''Headset'' (Some 105)),
       mark_over_budget (mk_product ''Keyboard'' (Some 108))]"
    by (simp add: shelf_def filter_by_budget_def budget_step_def price_key_def
        default_config_def mk_product_def mark_over_budget_def Let_def)
  have "\<forall>p \<in> set (filter_by_budget default_config shelf 100).
         (within_budget 100 p \<longrightarrow> over_budget p = None) \<and>
         (\<not> within_budget 100 p \<longrightarrow> over_budget p = Some True)"
    using h filter_by_budget_order_and_flags [of default_config shelf 100] by blast
  then have "list_all (\<lambda>p. within_budget 100 p = (over_budget p = None))
     (filter_by_budget default_config shelf 100)"
    by (auto simp: list_all_iff)
  moreover have "list_all (\<lambda>p. over_budget p = None) shelf"
    using h by (simp add: list_all_iff)
  moreover have "map name (filter_by_budget default_config shelf 100) =
     [Some ''Mouse'', Some ''Headset'', Some ''Keyboard'']"
    unfolding ex by (simp add: mk_product_def mark_over_budget_def)
  moreover have "map over_budget (filter_by_budget default_config shelf 100) =
     [None, Some True, Some True]"
    unfolding ex by (simp add: mk_product_def mark_over_budget_def)
  ultimately show ?thesis by blast
qed

text \<open>
  C10 as stated fails: a within-budget product that enters with the flag leaves with it.
\<close>

theorem filter_by_budget_stale_flag:
  "filter_by_budget default_config [stale] 100 = [stale] \<and>
   within_budget 100 stale \<and> over_budget stale = Some True"
  by (simp add: stale_def filter_by_budget_def budget_step_def price_key_def
        default_config_def mk_product_def Let_def within_budget_def)


section \<open>The price score\<close>

text \<open>
  The price score as the specification words it, for the ratio \<open>r = price / budget\<close>:
  \<open>1 - 0.5 r\<close> when \<open>r \<le> 1\<close>, and \<open>max(0, 0.5 - 2 (r - 1))\<close> when \<open>r > 1\<close>.
\<close>

definition spec_price_score :: "real \<Rightarrow> real" where
  "spec_price_score r = (if r \<le> 1 then 1 - (1 / 2) * r else max 0 (1 / 2 - 2 * (r - 1)))"

definition free_sample :: product where
  "free_sample = mk_product ''Free sample'' (Some 0)"

definition ranked_mouse :: product where
  "ranked_mouse = (mk_product ''Mouse'' (Some 50))
     \<lparr>preference_score := Some 0, matched_preferences := Some [], review_score := Some 0,
      price_score := Some (3 / 4), combined_score := Some (3 / 2)\<rparr>"

lemma set_sorted_reverse [simp]: "set (sorted_reverse key xs) = set xs"
  by (simp add: sorted_reverse_def)

lemma price_score_product [simp]: "price (score_product prefs p) = price p"
  by (simp add: score_product_def Let_def)

lemma compute_price_score_cong:
  "price p = price q \<Longrightarrow> compute_price_score p b = compute_price_score q b"
  by (simp add: compute_price_score_def)

lemma price_add_scores [simp]: "price (add_scores cfg b p) = price p"
  by (simp add: add_scores_def Let_def)

lemma price_score_add_scores [simp]:
  "price_score (add_scores cfg b p) = Some (compute_price_score p b)"
  by (simp add: add_scores_def Let_def)

lemma score_by_preferences_map:
  "score_by_preferences ps prefs = map (score_product prefs) ps"
  by (simp add: score_by_preferences_def score_product_def)

lemma scored_products_map:
  "scored_products cfg ps b prefs =
     map (\<lambda>p. add_scores cfg b (score_product prefs p)) (filter_by_budget cfg ps b)"
  by (simp add: scored_products_def score_by_preferences_map)

lemma ranked_price_score:
  assumes "p \<in> set (rank_products cfg ps b prefs)"
  shows "price_score p = Some (compute_price_score p b)"
proof -
  from assms obtain q where p: "p = add_scores cfg b (score_product prefs q)"
    by (auto simp: rank_products_def scored_products_map)
  have "compute_price_score p b = compute_price_score (score_product prefs q) b"
    unfolding p by (rule compute_price_score_cong) simp
  then show ?thesis by (simp add: p)
qed

lemma compute_price_score_spec:
  "price p = Some x \<Longrightarrow>
     compute_price_score p b = (if x \<le> 0 then 0 else spec_price_score (x / b))"
  by (simp add: compute_price_score_def spec_price_score_def Let_def mult.commute)

text \<open>
  C2 (amended). For a positive budget, every ranked product with price \<open>x\<close> carries
  the price score \<open>0\<close> when \<open>x \<le> 0\<close> and the specification's formula at
  \<open>r = x / budget\<close> when \<open>x > 0\<close>: that is \<open>1 - 0.5 r\<close>, between 0.5 and 1, for a
  price within the budget, and \<open>max(0, 0.5 - 2 (r - 1))\<close> for a price over it.
\<close>

theorem rank_products_price_score:
  assumes "0 < budget" and "p \<in> set (rank_products cfg ps budget prefs)"
    and "price p = Some x"
  shows "price_score p = Some (if x \<le> 0 then 0 else spec_price_score (x / budget)) \<and>
         (0 < x \<and> x \<le> budget \<longrightarrow>
            spec_price_score (x / budget) = 1 - (1 / 2) * (x / budget) \<and>
            1 / 2 \<le> spec_price_score (x / budget) \<and> spec_price_score (x / budget) \<le> 1) \<and>
         (budget < x \<longrightarrow>
            spec_price_score (x / budget) = max 0 (1 / 2 - 2 * (x / budget - 1)))"
proof -
  have score: "price_score p = Some (if x \<le> 0 then 0 else spec_price_score (x / budget))"
    using ranked_price_score [OF assms(2)] compute_price_score_spec [OF assms(3)] by simp
  have within: "spec_price_score (x / budget) = 1 - (1 / 2) * (x / budget) \<and>
      1 / 2 \<le> spec_price_score (x / budget) \<and> spec_price_score (x / budget) \<le> 1"
    if "0 < x" and "x \<le> budget"
  proof -
    from that assms(1) have r: "0 < x / budget" "x / budget \<le> 1"
      by simp_all
    then show ?thesis by (simp add: spec_price_score_def)
  qed
  have over: "spec_price_score (x / budget) = max 0 (1 / 2 - 2 * (x / budget - 1))"
    if "budget < x"
  proof -
    from that assms(1) have "1 < x / budget" by simp
    then show ?thesis by (simp add: spec_price_score_def)
  qed
  show ?thesis using score within over by blast
qed

text \<open>The definitions that evaluate a ranking of concrete products.\<close>

lemmas eval_rank = rank_products_def scored_products_def filter_by_budget_def budget_step_def
  price_key_def default_config_def mk_product_def score_by_preferences_def score_product_def
  preference_step_def product_text_def py_lower_def lower_char_def py_split_def is_space_def
  add_scores_def calculate_review_score_def compute_price_score_def sorted_reverse_def
  combined_key_def Let_def

theorem rank_products_price_score_witness:
  "0 < (100::real) \<and>
   ranked_mouse \<in> set (rank_products default_config shelf 100 []) \<and>
   price ranked_mouse = Some 50 \<and>
   price_score ranked_mouse = Some (spec_price_score (50 / 100)) \<and>
   spec_price_score (50 / 100) = 3 / 4"
proof -
  have h1: "0 < (100::real)" by simp
  have h2: "ranked_mouse \<in> set (rank_products default_config shelf 100 [])"
    by (simp add: ranked_mouse_def shelf_def eval_rank)
  have h3: "price ranked_mouse = Some 50"
    by (simp add: ranked_mouse_def mk_product_def)
  have "spec_price_score (50 / 100) = 3 / 4"
    by (simp add: spec_price_score_def)
  then show ?thesis
    using h1 h2 h3 rank_products_price_score [OF h1 h2 h3] by simp
qed

text \<open>
  C2 as stated fails at the price 0, which is non-negative: the ranking scores it 0, the
  formula gives 1.
\<close>

theorem rank_products_price_score_zero:
  "rank_products default_config [free_sample] 100 [] =
     [free_sample\<lparr>preference_score := Some 0, matched_preferences := Some [],
        review_score := Some 0, price_score := Some 0, combined_score := Some 0\<rparr>] \<and>
   price free_sample = Some 0 \<and> spec_price_score (0 / 100) = 1"
  by (simp add: free_sample_def spec_price_score_def eval_rank)


section \<open>Stability of the ranking\<close>

definition laptop_x :: product where
  "laptop_x = mk_product ''Laptop X'' (Some 68)"

definition phone :: product where
  "phone = mk_product ''Phone'' (Some 16)"

lemma sorted_reverse_stable:
  "filter (\<lambda>x. key x = k) (sorted_reverse key xs) = filter (\<lambda>x. key x = k) xs"
proof -
  have "filter (\<lambda>x. key x = k) (sorted_reverse key xs) =
        rev (filter (\<lambda>x. key x = k) (sort_key key (rev xs)))"
    by (simp add: sorted_reverse_def rev_filter)
  also have "\<dots> = rev (filter (\<lambda>x. key x = k) (rev xs))"
    by (simp only: sort_key_stable)
  also have "\<dots> = filter (\<lambda>x. key x = k) xs"
    by (simp add: rev_filter)
  finally show ?thesis .
qed

lemma sorted_reverse_descending:
  "sorted_wrt (\<lambda>a b. b \<le> a) (map key (sorted_reverse key xs))"
proof -
  have "sorted (map key (sort_key key (rev xs)))" by simp
  then have "sorted_wrt (\<lambda>a b. b \<le> a) (rev (map key (sort_key key (rev xs))))"
    by (simp add: sorted_wrt_rev)
  then show ?thesis by (simp add: sorted_reverse_def rev_map)
qed

text \<open>
  C6 (amended). The sort that ends \<open>rank_products\<close> is stable and descending: products
  with equal combined scores appear in the ranked output in the order of the scored list,
  which is the order of the list \<open>filter_by_budget\<close> returns (within-budget products in
  input order, then the backfilled products by ascending price), not always the order of
  the input.
\<close>

theorem rank_products_stable_on_filtered:
  "filter (\<lambda>p. combined_key p = k) (rank_products cfg ps budget prefs) =
     filter (\<lambda>p. combined_key p = k) (scored_products cfg ps budget prefs) \<and>
   scored_products cfg ps budget prefs =
     map (\<lambda>p. add_scores cfg budget (score_product prefs p)) (filter_by_budget cfg ps budget) \<and>
   sorted_wrt (\<lambda>a b. b \<le> a) (map combined_key (rank_products cfg ps budget prefs))"
  unfolding rank_products_def
  using sorted_reverse_stable [of combined_key k "scored_products cfg ps budget prefs"]
    scored_products_map [of cfg ps budget prefs]
    sorted_reverse_descending [of combined_key "scored_products cfg ps budget prefs"]
  by blast

text \<open>
  C6 as stated fails: \<open>Laptop X\<close> comes first in the input and \<open>Phone\<close> second, both
  get the combined score \<open>7/4\<close>, and the ranking returns \<open>Phone\<close> first, because
  \<open>Laptop X\<close> is over budget and enters the filtered list through the backfill.
\<close>

theorem rank_products_reorders_equal_scores:
  "map name [laptop_x, phone] = [Some ''Laptop X'', Some ''Phone''] \<and>
   map name (rank_products default_config [laptop_x, phone] 64 [''gaming laptop'']) =
     [Some ''Phone'', Some ''Laptop X''] \<and>
   map combined_score (rank_products default_config [laptop_x, phone] 64 [''gaming laptop'']) =
     [Some (7 / 4), Some (7 / 4)]"
  by (simp add: laptop_x_def phone_def eval_rank)


section \<open>ProductAnalyzer.extract\_key\_features\<close>

text \<open>
  The two regular expressions of the function, for ASCII text. \<open>\d\<close> is a decimal digit
  and \<open>\w\<close> a letter, a digit or the underscore.
\<close>

definition is_digit :: "char \<Rightarrow> bool" where
  "is_digit c = (c \<in> set ''0123456789'')"

definition is_word :: "char \<Rightarrow> bool" where
  "is_word c =
     (c \<in> set ''abcdefghijklmnopqrstuvwxyzABCDEFGHIJKLMNOPQRSTUVWXYZ0123456789_'')"

definition units :: "string list" where
  "units = [''GB'', ''TB'', ''MP'', ''GHz'', ''inch'', ''cm'', ''mm'', ''mAh'']"

text \<open>
  A match of \<open>\d+(?:\.\d+)?(?:GB|TB|MP|GHz|inch|cm|mm|mAh)\b\<close> at the start of \<open>s\<close>.
  The digits are matched greedily; giving some of them back never helps, because the next
  character would then be a digit, where neither the dot nor a unit can start. No unit is
  a prefix of another, so at most one alternative applies.
\<close>

definition match_spec :: "string \<Rightarrow> string option" where
  "match_spec s =
     (let ds = takeWhile is_digit s; r1 = dropWhile is_digit s in
      if ds = [] then None
      else
        let frac = (case r1 of
                      [] \<Rightarrow> []
                    | c # r \<Rightarrow> if c = CHR ''.'' \<and> takeWhile is_digit r \<noteq> []
                               then c # takeWhile is_digit r else []);
            r2 = drop (length frac) r1
        in case find (\<lambda>u. take (length u) r2 = u) units of
             None \<Rightarrow> None
           | Some u \<Rightarrow>
               (case drop (length u) r2 of
                  [] \<Rightarrow> Some (ds @ frac @ u)
                | c # _ \<Rightarrow> if is_word c then None else Some (ds @ frac @ u)))"

text \<open>
  \<open>re.findall\<close> scans from left to right and resumes after each match. The flag says
  whether the character before the current position is a word character (the leading
  \<open>\b\<close> holds exactly when it is not, since a match starts with a digit); the counter is
  the number of characters of the last match still to skip.
\<close>

fun find_specs :: "bool \<Rightarrow> nat \<Rightarrow> string \<Rightarrow> string list" where
  "find_specs pw k [] = []"
| "find_specs pw (Suc k) (c # cs) = find_specs (is_word c) k cs"
| "find_specs pw 0 (c # cs) =
     (case (if pw then None else match_spec (c # cs)) of
        None \<Rightarrow> find_specs (is_word c) 0 cs
      | Some m \<Rightarrow> m # find_specs (is_word c) (length m - 1) cs)"

text \<open>A match of \<open>\(([^)]+)\)\<close> at the start of \<open>s\<close>: the text of the group.\<close>

definition match_paren :: "string \<Rightarrow> string option" where
  "match_paren s =
     (case s of
        [] \<Rightarrow> None
      | c # r \<Rightarrow>
          if c \<noteq> CHR ''('' then None
          else
            let inner = takeWhile (\<lambda>d. d \<noteq> CHR '')'') r in
            if inner = [] then None
            else (case dropWhile (\<lambda>d. d \<noteq> CHR '')'') r of [] \<Rightarrow> None | _ # _ \<Rightarrow> Some inner))"

fun find_parens :: "nat \<Rightarrow> string \<Rightarrow> string list" where
  "find_parens k [] = []"
| "find_parens (Suc k) (c # cs) = find_parens k cs"
| "find_parens 0 (c # cs) =
     (case match_paren (c # cs) of
        None \<Rightarrow> find_parens 0 cs
      | Some inner \<Rightarrow> inner # find_parens (length inner + 1) cs)"

text \<open>\<open>s.split(',')\<close> and \<open>s.strip()\<close>.\<close>

fun split_on :: "char \<Rightarrow> string \<Rightarrow> string \<Rightarrow> string list" where
  "split_on sep w [] = [w]"
| "split_on sep w (c # cs) =
     (if c = sep then w # split_on sep [] cs else split_on sep (w @ [c]) cs)"

definition py_strip :: "string \<Rightarrow> string" where
  "py_strip s = rev (dropWhile is_space (rev (dropWhile is_space s)))"

text \<open>One iteration of the loop that removes duplicates and empty strings.\<close>

definition unique_step :: "string list \<Rightarrow> string \<Rightarrow> string list" where
  "unique_step unique_features feature =
     (if feature \<noteq> [] \<and> feature \<notin> set unique_features then unique_features @ [feature]
      else unique_features)"

definition preference_match_step :: "string \<Rightarrow> nat \<Rightarrow> string \<Rightarrow> nat" where
  "preference_match_step feature_lower score pref =
     (let pref_lower = py_lower pref in
      if pref_lower = feature_lower then score + 2
      else if py_in pref_lower feature_lower \<or> py_in feature_lower pref_lower then score + 1
      else score)"

definition preference_match_score :: "string list \<Rightarrow> string \<Rightarrow> nat" where
  "preference_match_score preferences feature =
     foldl (preference_match_step (py_lower feature)) 0 preferences"

text \<open>
  The function returns the key features. \<open>features\<close> is the very list stored in the
  product when the product has the key \<open>features\<close> (and a new empty list otherwise), and
  \<open>extend\<close> changes that list in place: the second component is the product after the
  call.
\<close>

definition extract_key_features :: "product \<Rightarrow> string list \<Rightarrow> string list \<times> product" where
  "extract_key_features product preferences =
     (let name = (case name product of None \<Rightarrow> [] | Some n \<Rightarrow> n);
          specs = find_specs False 0 name;
          parentheses_features = find_parens 0 name;
          matched_prefs = (case matched_preferences product of None \<Rightarrow> [] | Some m \<Rightarrow> m);
          extended =
            (case features product of None \<Rightarrow> [] | Some fs \<Rightarrow> fs) @ specs @
            concat (map (\<lambda>pf. map py_strip (split_on CHR '','' [] pf)) parentheses_features) @
            matched_prefs;
          product' =
            (case features product of
               None \<Rightarrow> product
             | Some _ \<Rightarrow> product\<lparr>features := Some extended\<rparr>);
          unique_features = foldl unique_step [] extended;
          prioritized =
            (if preferences = [] then unique_features
             else sorted_reverse (preference_match_score preferences) unique_features)
      in (take 5 prioritized, product'))"

text \<open>What the call leaves in the product: a stored \<open>features\<close> list grows.\<close>

lemma features_after_extract_key_features:
  "features (snd (extract_key_features p prefs)) =
     (case features p of
        None \<Rightarrow> None
      | Some fs \<Rightarrow>
          Some (fs @ find_specs False 0 (case name p of None \<Rightarrow> [] | Some n \<Rightarrow> n) @
                concat (map (\<lambda>pf. map py_strip (split_on CHR '','' [] pf))
                  (find_parens 0 (case name p of None \<Rightarrow> [] | Some n \<Rightarrow> n))) @
                (case matched_preferences p of None \<Rightarrow> [] | Some m \<Rightarrow> m)))"
  by (simp add: extract_key_features_def Let_def split: option.splits)

text \<open>A product as the collector normalises it: it has a \<open>features\<close> list.\<close>

definition phone_128 :: product where
  "phone_128 = (mk_product ''Phone 128GB'' (Some 100))\<lparr>features := Some [''Fast charging'']\<rparr>"

text \<open>The definitions that evaluate the function on a concrete product.\<close>

lemmas eval_key_features = extract_key_features_def match_spec_def match_paren_def is_digit_def
  is_word_def units_def py_strip_def is_space_def unique_step_def preference_match_score_def
  preference_match_step_def py_lower_def lower_char_def sorted_reverse_def mk_product_def Let_def


text \<open>
  C9. The claim is that \<open>extract_key_features\<close> leaves the product, and its stored
  \<open>features\<close> list in particular, as it was. The code does not: for the product
  \<open>Phone 128GB\<close> with the features \<open>[Fast charging]\<close> the call returns the key
  features and leaves the stored list extended by \<open>128GB\<close>.
\<close>

theorem extract_key_features_extends_features:
  "extract_key_features phone_128 [] =
     ([''Fast charging'', ''128GB''], phone_128\<lparr>features := Some [''Fast charging'', ''128GB'']\<rparr>) \<and>
   features phone_128 = Some [''Fast charging''] \<and>
   features (snd (extract_key_features phone_128 [])) = Some [''Fast charging'', ''128GB'']"
  by (simp add: phone_128_def eval_key_features)


section \<open>Exceptions, effects and the log\<close>

text \<open>
  The exceptions of \<open>utils/exceptions.py\<close> and the built-in ones the modelled code can
  meet. All of them are instances of \<open>Exception\<close>; \<open>NetworkError\<close> and \<open>ParsingError\<close>
  are subclasses of \<open>ScrapingError\<close>.
\<close>

datatype exn =
    InputError string
  | ScrapingError string
  | NetworkError string
  | ParsingError string
  | CacheError string
  | AnalysisError string
  | RecommendationError string
  | NoResultsError string
  | IOError string
  | JSONDecodeError
  | AttributeError
  | TypeError
  | ValueError
  | UnicodeDecodeError
  | KeyError
  | OtherException string

fun is_ScrapingError :: "exn \<Rightarrow> bool" where
  "is_ScrapingError (ScrapingError _) = True"
| "is_ScrapingError (NetworkError _) = True"
| "is_ScrapingError (ParsingError _) = True"
| "is_ScrapingError _ = False"

text \<open>\<open>except Exception\<close> matches every exception of the model.\<close>

definition is_Exception :: "exn \<Rightarrow> bool" where
  "is_Exception e = True"

text \<open>
  The warnings and errors the engine writes to the logger (its informational lines are
  left out). An error line carries the exception it reports.
\<close>

datatype log_entry = Warning string | Error string exn

text \<open>
  The engine runs against a state: the store of the analyzer it was built with (the
  products that the analyzer changes in place live there) and the log.
\<close>

record 's world =
  store :: 's
  logged :: "log_entry list"

definition log_line :: "log_entry \<Rightarrow> 's world \<Rightarrow> 's world" where
  "log_line entry w = w\<lparr>logged := logged w @ [entry]\<rparr>"

text \<open>
  The analyzer handed to the engine's constructor. Each method may raise, and may change
  the store. The product type is left open: the engine only passes products on.
\<close>

record ('p, 's) analyzer =
  rank_products_of :: "'p list \<Rightarrow> real \<Rightarrow> string list \<Rightarrow> 's \<Rightarrow> (exn + 'p list) \<times> 's"
  extract_key_features_of :: "'p \<Rightarrow> string list \<Rightarrow> 's \<Rightarrow> (exn + string list) \<times> 's"
  explain_recommendation_of :: "'p \<Rightarrow> real \<Rightarrow> string list \<Rightarrow> 's \<Rightarrow> (exn + string) \<times> 's"

definition call :: "('s \<Rightarrow> (exn + 'a) \<times> 's) \<Rightarrow> 's world \<Rightarrow> (exn + 'a) \<times> 's world" where
  "call f w = (case f (store w) of (r, s) \<Rightarrow> (r, w\<lparr>store := s\<rparr>))"

record 'p recommendation =
  product_of :: 'p
  key_features :: "string list"
  explanation :: string

record 'p alternatives =
  increased_budget :: "(real \<times> 'p recommendation list) option"
  alternative_products :: "(string list \<times> 'p recommendation list) option"
  suggestions :: "string list"

section \<open>RecommendationEngine\<close>

text \<open>
  The loop that wraps each selected product with its key features and its explanation.
  The key features are extracted for \<open>preferences\<close>, the explanation is written for
  \<open>budget\<close>; the first exception ends the loop.
\<close>

fun recommend_all ::
  "('p, 's) analyzer \<Rightarrow> real \<Rightarrow> string list \<Rightarrow> 'p list \<Rightarrow> 's world \<Rightarrow>
     (exn + 'p recommendation list) \<times> 's world" where
  "recommend_all an budget preferences [] w = (Inr [], w)"
| "recommend_all an budget preferences (p # ps) w =
     (case call (extract_key_features_of an p preferences) w of
        (Inl e, w1) \<Rightarrow> (Inl e, w1)
      | (Inr kf, w1) \<Rightarrow>
          (case call (explain_recommendation_of an p budget preferences) w1 of
             (Inl e, w2) \<Rightarrow> (Inl e, w2)
           | (Inr ex, w2) \<Rightarrow>
               (case recommend_all an budget preferences ps w2 of
                  (Inl e, w3) \<Rightarrow> (Inl e, w3)
                | (Inr rs, w3) \<Rightarrow>
                    (Inr (\<lparr>product_of = p, key_features = kf, explanation = ex\<rparr> # rs), w3))))"

definition generate_recommendations ::
  "('p, 's) analyzer \<Rightarrow> nat \<Rightarrow> 'p list \<Rightarrow> real \<Rightarrow> string list \<Rightarrow> 's world \<Rightarrow>
     (exn + 'p recommendation list) \<times> 's world" where
  "generate_recommendations an top_count products budget preferences w =
     (if products = []
      then (Inl (NoResultsError ''No products found matching your criteria''),
            log_line (Warning ''No products to recommend'') w)
      else
        case call (rank_products_of an products budget preferences) w of
          (Inl e, w1) \<Rightarrow> (Inl e, w1)
        | (Inr ranked_products, w1) \<Rightarrow>
            if ranked_products = []
            then (Inl (NoResultsError ''No products found within your budget''),
                  log_line (Warning ''No products after ranking'') w1)
            else recommend_all an budget preferences (take top_count ranked_products) w1)"

text \<open>
  The body of the first \<open>try\<close> of \<open>generate_alternatives\<close>. It works on the dictionary
  \<open>alternatives\<close>, whose changes stay when a later statement raises: the result is the
  exception that ended the body, if any, the dictionary and the state.
\<close>

definition increased_budget_body ::
  "('p, 's) analyzer \<Rightarrow> (real \<Rightarrow> exn + string) \<Rightarrow> 'p list \<Rightarrow> real \<Rightarrow> string list \<Rightarrow>
     'p alternatives \<Rightarrow> 's world \<Rightarrow> exn option \<times> 'p alternatives \<times> 's world" where
  "increased_budget_body an format_currency products budget preferences alts w =
     (let increased = budget * (12 / 10) in
      case call (rank_products_of an products increased preferences) w of
        (Inl e, w1) \<Rightarrow> (Some e, alts, w1)
      | (Inr ranked_products, w1) \<Rightarrow>
          if ranked_products = [] then (None, alts, w1)
          else
            (case recommend_all an budget preferences (take 3 ranked_products) w1 of
               (Inl e, w2) \<Rightarrow> (Some e, alts, w2)
             | (Inr recommendations, w2) \<Rightarrow>
                 let alts1 = alts\<lparr>increased_budget := Some (increased, recommendations)\<rparr> in
                 (case format_currency increased of
                    Inl e \<Rightarrow> (Some e, alts1, w2)
                  | Inr amount \<Rightarrow>
                      (None,
                       alts1\<lparr>suggestions := suggestions alts1 @
                         [''Consider increasing your budget to '' @ amount @
                          '' to get better options.'']\<rparr>,
                       w2))))"

text \<open>The body of the second \<open>try\<close>, entered with \<open>[preferences[0]]\<close>.\<close>

definition reduced_preferences_body ::
  "('p, 's) analyzer \<Rightarrow> 'p list \<Rightarrow> real \<Rightarrow> string \<Rightarrow>
     'p alternatives \<Rightarrow> 's world \<Rightarrow> exn option \<times> 'p alternatives \<times> 's world" where
  "reduced_preferences_body an products budget first_preference alts w =
     (let reduced_preferences = [first_preference] in
      case call (rank_products_of an products budget reduced_preferences) w of
        (Inl e, w1) \<Rightarrow> (Some e, alts, w1)
      | (Inr ranked_products, w1) \<Rightarrow>
          if ranked_products = [] then (None, alts, w1)
          else
            (case recommend_all an budget reduced_preferences (take 3 ranked_products) w1 of
               (Inl e, w2) \<Rightarrow> (Some e, alts, w2)
             | (Inr recommendations, w2) \<Rightarrow>
                 (None,
                  alts\<lparr>alternative_products := Some (reduced_preferences, recommendations),
                       suggestions := suggestions alts @
                         [''Consider prioritizing only your most important preference: '' @
                          first_preference @ ''.'']\<rparr>,
                  w2)))"

text \<open>
  \<open>try: body except Exception as e: logger.error(message + str(e))\<close>. An exception the
  clause does not match leaves the statement.
\<close>

definition try_and_log ::
  "string \<Rightarrow> exn option \<times> 'a \<times> 's world \<Rightarrow> (exn + 'a) \<times> 's world" where
  "try_and_log message r =
     (case r of
        (None, a, w) \<Rightarrow> (Inr a, w)
      | (Some e, a, w) \<Rightarrow>
          if is_Exception e then (Inr a, log_line (Error message e) w) else (Inl e, w))"

text \<open>The two attempts, each with its guard.\<close>

definition try_increased_budget ::
  "('p, 's) analyzer \<Rightarrow> (real \<Rightarrow> exn + string) \<Rightarrow> 'p list \<Rightarrow> real \<Rightarrow> string list \<Rightarrow>
     'p alternatives \<Rightarrow> 's world \<Rightarrow> (exn + 'p alternatives) \<times> 's world" where
  "try_increased_budget an format_currency products budget preferences alts w =
     (if 0 < budget
      then try_and_log ''Error generating increased budget alternatives''
             (increased_budget_body an format_currency products budget preferences alts w)
      else (Inr alts, w))"

definition try_fewer_preferences ::
  "('p, 's) analyzer \<Rightarrow> 'p list \<Rightarrow> real \<Rightarrow> string list \<Rightarrow>
     'p alternatives \<Rightarrow> 's world \<Rightarrow> (exn + 'p alternatives) \<times> 's world" where
  "try_fewer_preferences an products budget preferences alts w =
     (case preferences of
        first_preference # _ # _ \<Rightarrow>
          try_and_log ''Error generating reduced preference alternatives''
            (reduced_preferences_body an products budget first_preference alts w)
      | _ \<Rightarrow> (Inr alts, w))"

definition general_suggestions :: "'p alternatives \<Rightarrow> 'p alternatives" where
  "general_suggestions alts =
     (if increased_budget alts = None \<and> alternative_products alts = None
      then alts\<lparr>suggestions := suggestions alts @
             [''Try searching for a different product category or model.'',
              ''Consider waiting for sales or discounts if your budget is fixed.'']\<rparr>
      else alts)"

definition no_alternatives :: "'p alternatives" where
  "no_alternatives = \<lparr>increased_budget = None, alternative_products = None, suggestions = []\<rparr>"

definition generate_alternatives ::
  "('p, 's) analyzer \<Rightarrow> (real \<Rightarrow> exn + string) \<Rightarrow> 'p list \<Rightarrow> real \<Rightarrow> string list \<Rightarrow>
     's world \<Rightarrow> (exn + 'p alternatives) \<times> 's world" where
  "generate_alternatives an format_currency products budget preferences w =
     (if products = []
      then (Inr (no_alternatives\<lparr>suggestions :=
                  [''No products found. Try a different search term or check your spelling.'']\<rparr>),
            w)
      else
        case try_increased_budget an format_currency products budget preferences
               no_alternatives w of
          (Inl e, w1) \<Rightarrow> (Inl e, w1)
        | (Inr alts1, w1) \<Rightarrow>
            (case try_fewer_preferences an products budget preferences alts1 w1 of
               (Inl e, w2) \<Rightarrow> (Inl e, w2)
             | (Inr alts2, w2) \<Rightarrow> (Inr (general_suggestions alts2), w2)))"

section \<open>The engine on an empty product list\<close>

text \<open>
  C5. \<open>generate_recommendations\<close> on an empty product list raises \<open>NoResultsError\<close> with
  the message \<open>No products found matching your criteria\<close>. The result is the same for
  every analyzer and the analyzer's store is untouched: nothing was filtered or ranked.
  The result is an exception, not an alternatives record; and \<open>generate_alternatives\<close> on an
  empty list runs neither attempt: it returns a record without alternative blocks and
  leaves the state as it was.
\<close>

theorem generate_recommendations_empty:
  "generate_recommendations an top_count [] budget preferences w =
     (Inl (NoResultsError ''No products found matching your criteria''),
      \<lparr>store = store w, logged = logged w @ [Warning ''No products to recommend'']\<rparr>) \<and>
   generate_alternatives an format_currency [] budget preferences w =
     (Inr \<lparr>increased_budget = None, alternative_products = None,
           suggestions =
             [''No products found. Try a different search term or check your spelling.'']\<rparr>,
      w)"
  by (simp add: generate_recommendations_def generate_alternatives_def log_line_def
      no_alternatives_def)

section \<open>Alternative generation never raises\<close>

lemma log_call [simp]: "logged (snd (call f w)) = logged w"
  by (simp add: call_def split: prod.splits)

lemma log_recommend_all [simp]: "logged (snd (recommend_all an b prefs ps w)) = logged w"
proof (induction ps arbitrary: w)
  case Nil
  show ?case by simp
next
  case (Cons p ps)
  show ?case
  proof (cases "call (extract_key_features_of an p prefs) w")
    case (Pair r1 w1)
    have l1: "logged w1 = logged w" using log_call [of "extract_key_features_of an p prefs" w] Pair by simp
    show ?thesis
    proof (cases r1)
      case (Inl e)
      with Pair l1 show ?thesis by simp
    next
      case (Inr kf)
      show ?thesis
      proof (cases "call (explain_recommendation_of an p b prefs) w1")
        case (Pair r2 w2)
        have l2: "logged w2 = logged w"
          using log_call [of "explain_recommendation_of an p b prefs" w1] Pair l1 by simp
        show ?thesis
        proof (cases r2)
          case (Inl e)
          with \<open>call (extract_key_features_of an p prefs) w = (r1, w1)\<close> Inr Pair l2
          show ?thesis by simp
        next
          case r2: (Inr ex)
          have "logged (snd (recommend_all an b prefs ps w2)) = logged w"
            using Cons.IH [of w2] l2 by simp
          with \<open>call (extract_key_features_of an p prefs) w = (r1, w1)\<close> Inr Pair r2
          show ?thesis by (auto split: prod.splits sum.splits)
        qed
      qed
    qed
  qed
qed

lemma log_callD: "call f w = (r, w1) \<Longrightarrow> logged w1 = logged w"
  by (metis log_call snd_conv)

lemma log_recommend_allD:
  "recommend_all an b prefs ps w = (r, w1) \<Longrightarrow> logged w1 = logged w"
  by (metis log_recommend_all snd_conv)

lemma logged_increased_budget_body [simp]:
  "logged (snd (snd (increased_budget_body an fmt ps b prefs alts w))) = logged w"
  by (auto simp: increased_budget_body_def Let_def split: prod.splits sum.splits
      dest!: log_callD log_recommend_allD)

lemma logged_reduced_preferences_body [simp]:
  "logged (snd (snd (reduced_preferences_body an ps b p1 alts w))) = logged w"
  by (auto simp: reduced_preferences_body_def Let_def split: prod.splits sum.splits
      dest!: log_callD log_recommend_allD)

lemma try_and_log_result:
  "try_and_log message r =
     (Inr (fst (snd r)),
      case fst r of
        None \<Rightarrow> snd (snd r)
      | Some e \<Rightarrow> log_line (Error message e) (snd (snd r)))"
  by (cases r) (simp add: try_and_log_def is_Exception_def split: option.splits)

lemma try_increased_budget_result:
  "\<exists>alts1 w1.
     try_increased_budget an fmt ps b prefs alts w = (Inr alts1, w1) \<and>
     logged w1 = logged w @
       (case (if 0 < b then fst (increased_budget_body an fmt ps b prefs alts w) else None) of
          None \<Rightarrow> []
        | Some e \<Rightarrow> [Error ''Error generating increased budget alternatives'' e])"
  by (simp add: try_increased_budget_def try_and_log_result log_line_def split: option.splits)

lemma try_fewer_preferences_result:
  "\<exists>alts2 w2.
     try_fewer_preferences an ps b prefs alts w = (Inr alts2, w2) \<and>
     logged w2 = logged w @
       (case prefs of
          p1 # _ # _ \<Rightarrow>
            (case fst (reduced_preferences_body an ps b p1 alts w) of
               None \<Rightarrow> []
             | Some e \<Rightarrow> [Error ''Error generating reduced preference alternatives'' e])
        | _ \<Rightarrow> [])"
  by (simp add: try_fewer_preferences_def try_and_log_result log_line_def
      split: option.splits list.splits)

text \<open>An analyzer whose ranking always fails, and a formatter that never does.\<close>

definition failing_analyzer :: "(product, unit) analyzer" where
  "failing_analyzer =
     \<lparr>rank_products_of = (\<lambda>ps b prefs s. (Inl (AnalysisError ''scoring failed''), s)),
      extract_key_features_of = (\<lambda>p prefs s. (Inr [], s)),
      explain_recommendation_of = (\<lambda>p b prefs s. (Inr [], s))\<rparr>"

definition plain_currency :: "real \<Rightarrow> exn + string" where
  "plain_currency amount = Inr ''an amount''"

definition fresh_world :: "unit world" where
  "fresh_world = \<lparr>store = (), logged = []\<rparr>"

text \<open>
  C7. \<open>generate_alternatives\<close> returns an alternatives record for every analyzer, every
  formatter, every product list, budget, preference list and state: it never raises. An
  exception that ends the increased-budget attempt or the reduced-preference attempt is
  caught and written to the log, where it still is when the function returns.
\<close>

theorem generate_alternatives_never_raises:
  "(\<exists>alts w'. generate_alternatives an fmt products budget prefs w = (Inr alts, w')) \<and>
   (products \<noteq> [] \<and> 0 < budget \<and>
    fst (increased_budget_body an fmt products budget prefs no_alternatives w) = Some e \<longrightarrow>
      Error ''Error generating increased budget alternatives'' e
        \<in> set (logged (snd (generate_alternatives an fmt products budget prefs w)))) \<and>
   (products \<noteq> [] \<and> prefs = p1 # p2 # rest \<and>
    try_increased_budget an fmt products budget prefs no_alternatives w = (Inr alts1, w1) \<and>
    fst (reduced_preferences_body an products budget p1 alts1 w1) = Some e' \<longrightarrow>
      Error ''Error generating reduced preference alternatives'' e'
        \<in> set (logged (snd (generate_alternatives an fmt products budget prefs w))))"
proof (cases "products = []")
  case True
  then show ?thesis by (simp add: generate_alternatives_def)
next
  case False
  obtain a1 v1 where first:
    "try_increased_budget an fmt products budget prefs no_alternatives w = (Inr a1, v1)"
    and log1: "logged v1 = logged w @
       (case (if 0 < budget
              then fst (increased_budget_body an fmt products budget prefs no_alternatives w)
              else None) of
          None \<Rightarrow> []
        | Some e \<Rightarrow> [Error ''Error generating increased budget alternatives'' e])"
    using try_increased_budget_result [of an fmt products budget prefs no_alternatives w]
    by blast
  obtain a2 v2 where second:
    "try_fewer_preferences an products budget prefs a1 v1 = (Inr a2, v2)"
    and log2: "logged v2 = logged v1 @
       (case prefs of
          p1 # _ # _ \<Rightarrow>
            (case fst (reduced_preferences_body an products budget p1 a1 v1) of
               None \<Rightarrow> []
             | Some e \<Rightarrow> [Error ''Error generating reduced preference alternatives'' e])
        | _ \<Rightarrow> [])"
    using try_fewer_preferences_result [of an products budget prefs a1 v1] by blast
  have result: "generate_alternatives an fmt products budget prefs w =
      (Inr (general_suggestions a2), v2)"
    using False first second by (simp add: generate_alternatives_def)
  have total: "\<exists>alts w'. generate_alternatives an fmt products budget prefs w = (Inr alts, w')"
    using result by blast
  have fin: "snd (generate_alternatives an fmt products budget prefs w) = v2"
    by (simp add: result)
  have logs1: "Error ''Error generating increased budget alternatives'' e
        \<in> set (logged (snd (generate_alternatives an fmt products budget prefs w)))"
    if "0 < budget"
      and "fst (increased_budget_body an fmt products budget prefs no_alternatives w) = Some e"
    unfolding fin using that log1 log2 by simp
  have logs2: "Error ''Error generating reduced preference alternatives'' e'
        \<in> set (logged (snd (generate_alternatives an fmt products budget prefs w)))"
    if "prefs = p1 # p2 # rest"
      and "try_increased_budget an fmt products budget prefs no_alternatives w = (Inr alts1, w1)"
      and "fst (reduced_preferences_body an products budget p1 alts1 w1) = Some e'"
  proof -
    from that(2) first have "alts1 = a1" "w1 = v1" by simp_all
    with that(1,3) log2 show ?thesis unfolding fin by simp
  qed
  show ?thesis
    using total logs1 logs2 by blast
qed

theorem generate_alternatives_never_raises_witness:
  "[phone] \<noteq> [] \<and> 0 < (100::real) \<and>
   fst (increased_budget_body failing_analyzer plain_currency [phone] 100
          [''gaming'', ''light''] no_alternatives fresh_world) =
     Some (AnalysisError ''scoring failed'') \<and>
   try_increased_budget failing_analyzer plain_currency [phone] 100 [''gaming'', ''light'']
       no_alternatives fresh_world =
     (Inr no_alternatives,
      \<lparr>store = (), logged = [Error ''Error generating increased budget alternatives''
                               (AnalysisError ''scoring failed'')]\<rparr>) \<and>
   fst (reduced_preferences_body failing_analyzer [phone] 100 ''gaming'' no_alternatives
          \<lparr>store = (), logged = [Error ''Error generating increased budget alternatives''
                                   (AnalysisError ''scoring failed'')]\<rparr>) =
     Some (AnalysisError ''scoring failed'') \<and>
   Error ''Error generating increased budget alternatives'' (AnalysisError ''scoring failed'')
     \<in> set (logged (snd (generate_alternatives failing_analyzer plain_currency [phone] 100
                           [''gaming'', ''light''] fresh_world))) \<and>
   Error ''Error generating reduced preference alternatives'' (AnalysisError ''scoring failed'')
     \<in> set (logged (snd (generate_alternatives failing_analyzer plain_currency [phone] 100
                           [''gaming'', ''light''] fresh_world)))"
proof -
  let ?w1 = "\<lparr>store = (), logged = [Error ''Error generating increased budget alternatives''
                                   (AnalysisError ''scoring failed'')]\<rparr>"
  have h1: "[phone] \<noteq> []" by simp
  have h2: "0 < (100::real)" by simp
  have h3: "fst (increased_budget_body failing_analyzer plain_currency [phone] 100
          [''gaming'', ''light''] no_alternatives fresh_world) =
     Some (AnalysisError ''scoring failed'')"
    by (simp add: increased_budget_body_def failing_analyzer_def call_def fresh_world_def)
  have h4: "try_increased_budget failing_analyzer plain_currency [phone] 100
       [''gaming'', ''light''] no_alternatives fresh_world = (Inr no_alternatives, ?w1)"
    by (simp add: try_increased_budget_def try_and_log_def is_Exception_def log_line_def
        increased_budget_body_def failing_analyzer_def call_def fresh_world_def)
  have h5: "fst (reduced_preferences_body failing_analyzer [phone] 100 ''gaming''
          no_alternatives ?w1) = Some (AnalysisError ''scoring failed'')"
    by (simp add: reduced_preferences_body_def failing_analyzer_def call_def)
  show ?thesis
    using h1 h2 h3 h4 h5
      generate_alternatives_never_raises [of failing_analyzer plain_currency "[phone]" 100
        "[''gaming'', ''light'']" fresh_world "AnalysisError ''scoring failed''"
        "''gaming''" "''light''" "[]" no_alternatives ?w1 "AnalysisError ''scoring failed''"]
    by simp
qed


section \<open>MD5\<close>

text \<open>
  \<open>hashlib.md5\<close>, after RFC 1321. A message is a list of bytes; the digest is computed
  over 32-bit words, and \<open>hexdigest\<close> prints its sixteen bytes in lower-case hexadecimal.
\<close>

type_synonym u32 = "32 word"

type_synonym u8 = "8 word"

definition md5_sines :: "u32 list" where
  "md5_sines =
     [0xD76AA478, 0xE8C7B756, 0x242070DB, 0xC1BDCEEE, 0xF57C0FAF, 0x4787C62A,
      0xA8304613, 0xFD469501, 0x698098D8, 0x8B44F7AF, 0xFFFF5BB1, 0x895CD7BE,
      0x6B901122, 0xFD987193, 0xA679438E, 0x49B40821, 0xF61E2562, 0xC040B340,
      0x265E5A51, 0xE9B6C7AA, 0xD62F105D, 0x02441453, 0xD8A1E681, 0xE7D3FBC8,
      0x21E1CDE6, 0xC33707D6, 0xF4D50D87, 0x455A14ED, 0xA9E3E905, 0xFCEFA3F8,
      0x676F02D9, 0x8D2A4C8A, 0xFFFA3942, 0x8771F681, 0x6D9D6122, 0xFDE5380C,
      0xA4BEEA44, 0x4BDECFA9, 0xF6BB4B60, 0xBEBFBC70, 0x289B7EC6, 0xEAA127FA,
      0xD4EF3085, 0x04881D05, 0xD9D4D039, 0xE6DB99E5, 0x1FA27CF8, 0xC4AC5665,
      0xF4292244, 0x432AFF97, 0xAB9423A7, 0xFC93A039, 0x655B59C3, 0x8F0CCC92,
      0xFFEFF47D, 0x85845DD1, 0x6FA87E4F, 0xFE2CE6E0, 0xA3014314, 0x4E0811A1,
      0xF7537E82, 0xBD3AF235, 0x2AD7D2BB, 0xEB86D391]"

definition md5_shifts :: "nat list" where
  "md5_shifts =
     [7, 12, 17, 22, 7, 12, 17, 22, 7, 12, 17, 22, 7, 12, 17, 22,
      5, 9, 14, 20, 5, 9, 14, 20, 5, 9, 14, 20, 5, 9, 14, 20,
      4, 11, 16, 23, 4, 11, 16, 23, 4, 11, 16, 23, 4, 11, 16, 23,
      6, 10, 15, 21, 6, 10, 15, 21, 6, 10, 15, 21, 6, 10, 15, 21]"

definition rotl32 :: "u32 \<Rightarrow> nat \<Rightarrow> u32" where
  "rotl32 x n = push_bit n x OR drop_bit (32 - n) x"

text \<open>
  The message followed by the byte \<open>0x80\<close>, zeros up to 56 modulo 64, and the bit length
  as eight little-endian bytes.
\<close>

definition md5_pad :: "u8 list \<Rightarrow> u8 list" where
  "md5_pad bs =
     bs @ [0x80] @ replicate ((119 - length bs mod 64) mod 64) 0 @
     map (\<lambda>i. ucast (drop_bit (8 * i) (of_nat (8 * length bs) :: 64 word))) [0..<8]"

text \<open>Four bytes as a little-endian word, and back.\<close>

definition le_word :: "u8 list \<Rightarrow> u32" where
  "le_word bs = foldr (\<lambda>b acc. ucast b OR push_bit 8 acc) bs 0"

definition le_bytes :: "u32 \<Rightarrow> u8 list" where
  "le_bytes w = map (\<lambda>i. ucast (drop_bit (8 * i) w)) [0..<4]"

fun chunks :: "nat \<Rightarrow> nat \<Rightarrow> 'a list \<Rightarrow> 'a list list" where
  "chunks 0 k xs = []"
| "chunks (Suc n) k xs = take k xs # chunks n k (drop k xs)"

text \<open>One of the 64 operations on the state \<open>(a, b, c, d)\<close> for the block \<open>m\<close>.\<close>

definition md5_op :: "u32 list \<Rightarrow> u32 \<times> u32 \<times> u32 \<times> u32 \<Rightarrow> nat \<Rightarrow> u32 \<times> u32 \<times> u32 \<times> u32" where
  "md5_op m st i =
     (case st of (a, b, c, d) \<Rightarrow>
        let f = (if i < 16 then (b AND c) OR (NOT b AND d)
                 else if i < 32 then (d AND b) OR (NOT d AND c)
                 else if i < 48 then b XOR c XOR d
                 else c XOR (b OR NOT d));
            g = (if i < 16 then i
                 else if i < 32 then (5 * i + 1) mod 16
                 else if i < 48 then (3 * i + 5) mod 16
                 else (7 * i) mod 16);
            f' = f + a + md5_sines ! i + m ! g
        in (d, b + rotl32 f' (md5_shifts ! i), b, c))"

definition md5_block :: "u32 \<times> u32 \<times> u32 \<times> u32 \<Rightarrow> u8 list \<Rightarrow> u32 \<times> u32 \<times> u32 \<times> u32" where
  "md5_block st block =
     (case st of (a0, b0, c0, d0) \<Rightarrow>
        case foldl (md5_op (map le_word (chunks 16 4 block))) st [0..<64] of
          (a, b, c, d) \<Rightarrow> (a0 + a, b0 + b, c0 + c, d0 + d))"

definition md5_digest :: "u8 list \<Rightarrow> u8 list" where
  "md5_digest bs =
     (let padded = md5_pad bs in
      case foldl md5_block (0x67452301, 0xEFCDAB89, 0x98BADCFE, 0x10325476)
             (chunks (length padded div 64) 64 padded) of
        (a, b, c, d) \<Rightarrow> concat (map le_bytes [a, b, c, d]))"

definition hex_digit :: "u8 \<Rightarrow> char" where
  "hex_digit n = ''0123456789abcdef'' ! unat (n AND 0x0F)"

definition hexdigest :: "u8 list \<Rightarrow> string" where
  "hexdigest bs = concat (map (\<lambda>b. [hex_digit (drop_bit 4 b), hex_digit b]) bs)"

definition md5_hex :: "string \<Rightarrow> string" where
  "md5_hex s = hexdigest (md5_digest (map of_char s))"


section \<open>generate\_cache\_key\<close>

text \<open>
  \<open>hashlib.md5(f"{platform}:{query}".lower().encode()).hexdigest()\<close>: the whole key
  string is lower-cased, then hashed. For ASCII text \<open>encode\<close> yields the characters as
  bytes.
\<close>

definition generate_cache_key :: "string \<Rightarrow> string \<Rightarrow> string" where
  "generate_cache_key query tag = md5_hex (py_lower (tag @ '':'' @ query))"

text \<open>
  The normalisation the specification asks of a key: lower-case, and every run of white
  space collapsed to one space. The flag says whether the previous character was white
  space.
\<close>

fun collapse_whitespace :: "bool \<Rightarrow> string \<Rightarrow> string" where
  "collapse_whitespace in_run [] = []"
| "collapse_whitespace in_run (c # cs) =
     (if is_space c
      then (if in_run then collapse_whitespace True cs
            else CHR '' '' # collapse_whitespace True cs)
      else c # collapse_whitespace False cs)"

definition spec_normalize :: "string \<Rightarrow> string" where
  "spec_normalize query = collapse_whitespace False (py_lower query)"

lemma py_lower_key_string:
  "py_lower (tag @ '':'' @ query) = py_lower tag @ '':'' @ py_lower query"
  by (simp add: py_lower_def lower_char_def)

text \<open>
  C8 (amended). The cache key depends on a request only through the lower-cased string
  \<open>platform:query\<close>: two requests whose key strings are equal after lower-casing get the
  same key. For ASCII platform tags and ASCII queries this is the case whenever the tags
  are equal after lower-casing and the queries are. White space is not normalised.
\<close>

theorem generate_cache_key_lower_invariant:
  "(py_lower (tag1 @ '':'' @ query1) = py_lower (tag2 @ '':'' @ query2) \<longrightarrow>
      generate_cache_key query1 tag1 = generate_cache_key query2 tag2) \<and>
   (is_ascii tag1 \<and> is_ascii tag2 \<and> is_ascii query1 \<and> is_ascii query2 \<and>
    py_lower tag1 = py_lower tag2 \<and> py_lower query1 = py_lower query2 \<longrightarrow>
      generate_cache_key query1 tag1 = generate_cache_key query2 tag2)"
proof -
  have whole: "generate_cache_key query1 tag1 = generate_cache_key query2 tag2"
    if "py_lower (tag1 @ '':'' @ query1) = py_lower (tag2 @ '':'' @ query2)"
    unfolding generate_cache_key_def using that by (rule arg_cong)
  have parts: "py_lower (tag1 @ '':'' @ query1) = py_lower (tag2 @ '':'' @ query2)"
    if "py_lower tag1 = py_lower tag2" and "py_lower query1 = py_lower query2"
    unfolding py_lower_key_string using that by simp
  show ?thesis
    using whole parts by blast
qed

theorem generate_cache_key_lower_invariant_witness:
  "is_ascii ''Amazon'' \<and> is_ascii ''amazon'' \<and>
   is_ascii ''Gaming Laptop'' \<and> is_ascii ''gaming laptop'' \<and>
   py_lower ''Amazon'' = py_lower ''amazon'' \<and>
   py_lower ''Gaming Laptop'' = py_lower ''gaming laptop'' \<and>
   py_lower (''Amazon'' @ '':'' @ ''Gaming Laptop'') =
     py_lower (''amazon'' @ '':'' @ ''gaming laptop'') \<and>
   generate_cache_key ''Gaming Laptop'' ''Amazon'' = generate_cache_key ''gaming laptop'' ''amazon''"
proof -
  have a: "is_ascii ''Amazon''" "is_ascii ''amazon''"
    "is_ascii ''Gaming Laptop''" "is_ascii ''gaming laptop''"
    by (simp_all add: is_ascii_def)
  have h1: "py_lower ''Amazon'' = py_lower ''amazon''"
    by (simp add: py_lower_def lower_char_def)
  have h2: "py_lower ''Gaming Laptop'' = py_lower ''gaming laptop''"
    by (simp add: py_lower_def lower_char_def)
  have h3: "py_lower (''Amazon'' @ '':'' @ ''Gaming Laptop'') =
     py_lower (''amazon'' @ '':'' @ ''gaming laptop'')"
    by (simp add: py_lower_def lower_char_def)
  have "generate_cache_key ''Gaming Laptop'' ''Amazon'' =
      generate_cache_key ''gaming laptop'' ''amazon''"
    using a h1 h2
      generate_cache_key_lower_invariant [of "''Amazon''" "''Gaming Laptop''" "''amazon''"
        "''gaming laptop''"]
    by blast
  with a h1 h2 h3 show ?thesis by blast
qed

text \<open>
  C8 as stated fails: the queries \<open>gaming  laptop\<close> (two spaces) and \<open>gaming laptop\<close>
  are equal after lower-casing and collapsing white space, and get different keys.
\<close>

lemma md5_two_spaces:
  "md5_hex ''amazon:gaming  laptop'' = ''54d58df40aa44a87b2e0d7ee29c1e111''"
  by code_simp

lemma md5_one_space:
  "md5_hex ''amazon:gaming laptop'' = ''7c05abb58d11626764ae6ab3eec47620''"
  by code_simp

theorem generate_cache_key_whitespace:
  "spec_normalize ''gaming  laptop'' = spec_normalize ''gaming laptop'' \<and>
   generate_cache_key ''gaming  laptop'' ''amazon'' = ''54d58df40aa44a87b2e0d7ee29c1e111'' \<and>
   generate_cache_key ''gaming laptop'' ''amazon'' = ''7c05abb58d11626764ae6ab3eec47620''"
proof -
  have "spec_normalize ''gaming  laptop'' = spec_normalize ''gaming laptop''"
    by (simp add: spec_normalize_def py_lower_def lower_char_def is_space_def)
  moreover have "py_lower ''amazon:gaming  laptop'' = ''amazon:gaming  laptop''"
    by (simp add: py_lower_def lower_char_def)
  moreover have "py_lower ''amazon:gaming laptop'' = ''amazon:gaming laptop''"
    by (simp add: py_lower_def lower_char_def)
  ultimately show ?thesis
    by (simp add: generate_cache_key_def md5_two_spaces md5_one_space)
qed


section \<open>The cache\<close>

text \<open>
  A value that \<open>json.load\<close> returns: \<open>None\<close>, a boolean, a number, a string, a list or a
  dictionary (given by its items).
\<close>

datatype json =
    JNull
  | JBool bool
  | JNumber real
  | JString string
  | JArray "json list"
  | JObject "(string \<times> json) list"

text \<open>Python's truth value of such a value.\<close>

fun truthy :: "json \<Rightarrow> bool" where
  "truthy JNull = False"
| "truthy (JBool b) = b"
| "truthy (JNumber n) = (n \<noteq> 0)"
| "truthy (JString s) = (s \<noteq> [])"
| "truthy (JArray xs) = (xs \<noteq> [])"
| "truthy (JObject items) = (items \<noteq> [])"

text \<open>\<open>d.get(key, default)\<close> on the items of a dictionary.\<close>

definition dict_get :: "(string \<times> json) list \<Rightarrow> string \<Rightarrow> json \<Rightarrow> json" where
  "dict_get items key dflt = (case map_of items key of None \<Rightarrow> dflt | Some v \<Rightarrow> v)"

text \<open>
  What opening and decoding a cache file yields: \<open>open\<close> or \<open>read\<close> fails with an
  \<open>IOError\<close>; the bytes are not UTF-8; the text is not JSON; or \<open>json.load\<close> returns a
  value.
\<close>

datatype cache_file = Unreadable | BadEncoding | Undecodable | Decoded json

text \<open>
  The cache directory: its files by name, and whether a file can be written there
  (\<open>open(cache_file, 'w')\<close> raises an \<open>IOError\<close> when not).
\<close>

record cache_dir =
  files :: "string \<Rightarrow> cache_file option"
  writable :: bool

text \<open>
  The clock: \<open>datetime.now()\<close> in seconds, \<open>datetime.fromisoformat\<close> on a string (it may
  raise) and \<open>isoformat\<close>.
\<close>

record clock =
  now :: real
  fromisoformat :: "string \<Rightarrow> exn + real"
  isoformat :: "real \<Rightarrow> string"

fun is_IOError :: "exn \<Rightarrow> bool" where
  "is_IOError (IOError _) = True"
| "is_IOError _ = False"

fun is_JSONDecodeError :: "exn \<Rightarrow> bool" where
  "is_JSONDecodeError JSONDecodeError = True"
| "is_JSONDecodeError _ = False"

text \<open>
  The body of the \<open>try\<close> of \<open>get_cached_data\<close>. \<open>cache_data.get\<close> exists only on a
  dictionary, and \<open>fromisoformat\<close> takes only a string.
\<close>

definition read_cache_file :: "clock \<Rightarrow> cache_file \<Rightarrow> real \<Rightarrow> exn + json" where
  "read_cache_file cl f expiry_seconds =
     (case f of
        Unreadable \<Rightarrow> Inl (IOError ''cannot read the cache file'')
      | BadEncoding \<Rightarrow> Inl UnicodeDecodeError
      | Undecodable \<Rightarrow> Inl JSONDecodeError
      | Decoded cache_data \<Rightarrow>
          (case cache_data of
             JObject items \<Rightarrow>
               (let timestamp = dict_get items ''timestamp'' JNull in
                if \<not> truthy timestamp then Inr JNull
                else
                  (case timestamp of
                     JString t \<Rightarrow>
                       (case fromisoformat cl t of
                          Inl e \<Rightarrow> Inl e
                        | Inr cache_time \<Rightarrow>
                            if expiry_seconds < now cl - cache_time then Inr JNull
                            else Inr (dict_get items ''data'' JNull))
                   | _ \<Rightarrow> Inl TypeError))
           | _ \<Rightarrow> Inl AttributeError))"

text \<open>
  \<open>get_cached_data(cache_key, cache_dir, expiry_seconds)\<close>; \<open>JNull\<close> is the \<open>None\<close> of a
  cache miss. The \<open>except\<close> clause matches \<open>JSONDecodeError\<close> and \<open>IOError\<close>.
\<close>

definition get_cached_data :: "clock \<Rightarrow> string \<Rightarrow> cache_dir \<Rightarrow> real \<Rightarrow> exn + json" where
  "get_cached_data cl cache_key dir expiry_seconds =
     (case files dir (cache_key @ ''.json'') of
        None \<Rightarrow> Inr JNull
      | Some f \<Rightarrow>
          (case read_cache_file cl f expiry_seconds of
             Inl e \<Rightarrow> if is_JSONDecodeError e \<or> is_IOError e then Inr JNull else Inl e
           | Inr v \<Rightarrow> Inr v))"

text \<open>
  \<open>save_to_cache(data, cache_key, cache_dir)\<close>: the entry is the time stamp and the data;
  an \<open>IOError\<close> of the write is raised again as a \<open>CacheError\<close>.
\<close>

definition save_to_cache ::
  "clock \<Rightarrow> json \<Rightarrow> string \<Rightarrow> cache_dir \<Rightarrow> (exn + bool) \<times> cache_dir" where
  "save_to_cache cl data cache_key dir =
     (if writable dir
      then (Inr True,
            dir\<lparr>files := (files dir)(cache_key @ ''.json'' \<mapsto>
              Decoded (JObject [(''timestamp'', JString (isoformat cl (now cl))),
                                (''data'', data)]))\<rparr>)
      else (Inl (CacheError ''Failed to save data to cache''), dir))"

text \<open>A cache directory that holds one file.\<close>

definition single_file :: "string \<Rightarrow> cache_file \<Rightarrow> cache_dir" where
  "single_file file_name f = \<lparr>files = (\<lambda>n. if n = file_name then Some f else None), writable = True\<rparr>"

lemma get_cached_data_misses:
  "files dir (k @ ''.json'') = None \<Longrightarrow> get_cached_data cl k dir ttl = Inr JNull"
  "files dir (k @ ''.json'') = Some Unreadable \<Longrightarrow> get_cached_data cl k dir ttl = Inr JNull"
  "files dir (k @ ''.json'') = Some Undecodable \<Longrightarrow> get_cached_data cl k dir ttl = Inr JNull"
  "files dir (k @ ''.json'') = Some (Decoded (JObject items)) \<Longrightarrow>
     map_of items ''timestamp'' = None \<Longrightarrow> get_cached_data cl k dir ttl = Inr JNull"
  "files dir (k @ ''.json'') = Some (Decoded (JObject items)) \<Longrightarrow>
     map_of items ''timestamp'' = Some (JString t) \<Longrightarrow> fromisoformat cl t = Inr t0 \<Longrightarrow>
     t \<noteq> [] \<Longrightarrow> ttl < now cl - t0 \<Longrightarrow> get_cached_data cl k dir ttl = Inr JNull"
  by (simp_all add: get_cached_data_def read_cache_file_def dict_get_def)

text \<open>
  C4. The claim is that \<open>get_cached_data\<close> never raises, whatever the cache directory
  holds. The code does raise on a cache file whose content decodes but has the wrong
  shape: a time stamp that is a number makes \<open>fromisoformat\<close> raise \<open>TypeError\<close>, a
  top-level list makes \<open>cache_data.get\<close> raise \<open>AttributeError\<close>, and bytes that are not
  UTF-8 raise \<open>UnicodeDecodeError\<close>; the \<open>except\<close> clause matches none of them.
\<close>

theorem get_cached_data_raises:
  "get_cached_data cl ''k''
     (single_file ''k.json''
        (Decoded (JObject [(''timestamp'', JNumber 1700000000), (''data'', JArray [])])))
     86400 = Inl TypeError \<and>
   get_cached_data cl ''k'' (single_file ''k.json'' (Decoded (JArray []))) 86400 =
     Inl AttributeError \<and>
   get_cached_data cl ''k'' (single_file ''k.json'' BadEncoding) 86400 =
     Inl UnicodeDecodeError"
  by (simp add: get_cached_data_def read_cache_file_def dict_get_def single_file_def)

section \<open>DataCollector.\_collect\_from\_platform\<close>

text \<open>
  The collaborators of the collector: the scraper of a platform on a query (it may
  raise), the products of the mock data provider for a query (the provider's arguments
  are all computed from the query), and the settings of the cache.
\<close>

record collector =
  scrape :: "string \<Rightarrow> string \<Rightarrow> exn + json list"
  mock_products :: "string \<Rightarrow> json list"
  CACHE_EXPIRY :: real
  cache_clock :: clock

text \<open>\<open>_normalize_data\<close>: products without a name or a price are skipped.\<close>

fun normalize_data :: "json list \<Rightarrow> string \<Rightarrow> exn + json list" where
  "normalize_data [] tag = Inr []"
| "normalize_data (p # ps) tag =
     (case p of
        JObject items \<Rightarrow>
          if \<not> truthy (dict_get items ''name'' JNull) \<or> \<not> truthy (dict_get items ''price'' JNull)
          then normalize_data ps tag
          else
            (case normalize_data ps tag of
               Inl e \<Rightarrow> Inl e
             | Inr rest \<Rightarrow>
                 Inr (JObject
                   [(''name'', dict_get items ''name'' (JString [])),
                    (''url'', dict_get items ''url'' (JString [])),
                    (''price'', dict_get items ''price'' (JNumber 0)),
                    (''price_text'', dict_get items ''price_text'' (JString [])),
                    (''rating'', dict_get items ''rating'' JNull),
                    (''review_count'', dict_get items ''review_count'' (JNumber 0)),
                    (''features'', dict_get items ''features'' (JArray [])),
                    (''image_url'', dict_get items ''image_url'' (JString [])),
                    (''platform'', JString tag)] # rest))
      | _ \<Rightarrow> Inl AttributeError)"

text \<open>\<open>[p for p in mock_products if p['platform'].lower() == platform.lower()]\<close>.\<close>

fun filter_platform :: "string \<Rightarrow> json list \<Rightarrow> exn + json list" where
  "filter_platform tag [] = Inr []"
| "filter_platform tag (p # ps) =
     (case p of
        JObject items \<Rightarrow>
          (case map_of items ''platform'' of
             None \<Rightarrow> Inl KeyError
           | Some (JString s) \<Rightarrow>
               (case filter_platform tag ps of
                  Inl e \<Rightarrow> Inl e
                | Inr rest \<Rightarrow> Inr (if py_lower s = py_lower tag then p # rest else rest))
           | Some _ \<Rightarrow> Inl AttributeError)
      | _ \<Rightarrow> Inl TypeError)"

text \<open>
  Saving a result and returning it, as both the \<open>try\<close> body and the handler end. The
  value \<open>save_to_cache\<close> returns is not looked at.
\<close>

definition save_and_return ::
  "collector \<Rightarrow> json list \<Rightarrow> string \<Rightarrow> cache_dir \<Rightarrow> (exn + json) \<times> cache_dir" where
  "save_and_return c products cache_key dir =
     (case save_to_cache (cache_clock c) (JArray products) cache_key dir of
        (Inl e, dir1) \<Rightarrow> (Inl e, dir1)
      | (Inr saved, dir1) \<Rightarrow> (Inr (JArray products), dir1))"

text \<open>The body of the \<open>try\<close>.\<close>

definition scrape_and_cache ::
  "collector \<Rightarrow> string \<Rightarrow> string \<Rightarrow> string \<Rightarrow> cache_dir \<Rightarrow> (exn + json) \<times> cache_dir" where
  "scrape_and_cache c tag query cache_key dir =
     (if tag \<noteq> ''amazon'' \<and> tag \<noteq> ''flipkart'' then (Inr (JArray []), dir)
      else
        case scrape c tag query of
          Inl e \<Rightarrow> (Inl e, dir)
        | Inr products \<Rightarrow>
            (case normalize_data products tag of
               Inl e \<Rightarrow> (Inl e, dir)
             | Inr normalized_products \<Rightarrow>
                 if normalized_products = []
                 then (case filter_platform tag (mock_products c query) of
                         Inl e \<Rightarrow> (Inl e, dir)
                       | Inr mock \<Rightarrow> save_and_return c mock cache_key dir)
                 else save_and_return c normalized_products cache_key dir))"

text \<open>The handler of \<open>except ScrapingError\<close>.\<close>

definition mock_fallback ::
  "collector \<Rightarrow> string \<Rightarrow> string \<Rightarrow> string \<Rightarrow> cache_dir \<Rightarrow> (exn + json) \<times> cache_dir" where
  "mock_fallback c tag query cache_key dir =
     (case filter_platform tag (mock_products c query) of
        Inl e \<Rightarrow> (Inl e, dir)
      | Inr mock \<Rightarrow> save_and_return c mock cache_key dir)"

definition collect_from_platform ::
  "collector \<Rightarrow> string \<Rightarrow> string \<Rightarrow> cache_dir \<Rightarrow> (exn + json) \<times> cache_dir" where
  "collect_from_platform c tag query dir =
     (let cache_key = generate_cache_key query tag in
      case get_cached_data (cache_clock c) cache_key dir (CACHE_EXPIRY c) of
        Inl e \<Rightarrow> (Inl e, dir)
      | Inr cached_data \<Rightarrow>
          if truthy cached_data then (Inr cached_data, dir)
          else
            (case scrape_and_cache c tag query cache_key dir of
               (Inl e, dir1) \<Rightarrow>
                 if is_ScrapingError e then mock_fallback c tag query cache_key dir1
                 else (Inl e, dir1)
             | (Inr products, dir1) \<Rightarrow> (Inr products, dir1)))"

text \<open>
  A collector whose scraper finds one laptop on Amazon and fails on Flipkart, and an
  empty cache directory.
\<close>

definition epoch_clock :: clock where
  "epoch_clock =
     \<lparr>now = 0, fromisoformat = (\<lambda>s. Inl ValueError), isoformat = (\<lambda>t. ''1970-01-01T00:00:00'')\<rparr>"

definition shop :: collector where
  "shop =
     \<lparr>scrape = (\<lambda>tag query.
        if tag = ''amazon''
        then Inr [JObject [(''name'', JString ''Laptop X''), (''price'', JNumber 68)]]
        else Inl (ScrapingError ''blocked'')),
      mock_products = (\<lambda>query. [JObject [(''name'', JString ''Mock laptop''),
                                          (''platform'', JString ''Flipkart'')]]),
      CACHE_EXPIRY = 86400,
      cache_clock = epoch_clock\<rparr>"

definition empty_cache :: cache_dir where
  "empty_cache = \<lparr>files = (\<lambda>n. None), writable = True\<rparr>"

definition normalized_laptop :: json where
  "normalized_laptop =
     JObject [(''name'', JString ''Laptop X''), (''url'', JString []), (''price'', JNumber 68),
              (''price_text'', JString []), (''rating'', JNull), (''review_count'', JNumber 0),
              (''features'', JArray []), (''image_url'', JString []),
              (''platform'', JString ''amazon'')]"

text \<open>The definitions that evaluate a collection on a concrete collector.\<close>

lemmas eval_collect = collect_from_platform_def scrape_and_cache_def mock_fallback_def
  save_and_return_def save_to_cache_def get_cached_data_def dict_get_def shop_def
  empty_cache_def epoch_clock_def normalized_laptop_def py_lower_def lower_char_def Let_def

text \<open>
  C3. The claim is that a failing cache write never leaves the pipeline and does not
  change what a caller returns. In \<open>_collect_from_platform\<close> both calls of
  \<open>save_to_cache\<close> stand where only a \<open>ScrapingError\<close> is caught, or in the handler
  itself: with a cache directory that cannot be written, the collection that returns the
  scraped (or the mock) products when the write succeeds ends with the \<open>CacheError\<close>.
\<close>

theorem collect_from_platform_propagates_CacheError:
  "fst (collect_from_platform shop ''amazon'' ''laptop'' empty_cache) =
     Inr (JArray [normalized_laptop]) \<and>
   collect_from_platform shop ''amazon'' ''laptop'' (empty_cache\<lparr>writable := False\<rparr>) =
     (Inl (CacheError ''Failed to save data to cache''), empty_cache\<lparr>writable := False\<rparr>) \<and>
   fst (collect_from_platform shop ''flipkart'' ''laptop'' empty_cache) =
     Inr (JArray [JObject [(''name'', JString ''Mock laptop''),
                           (''platform'', JString ''Flipkart'')]]) \<and>
   collect_from_platform shop ''flipkart'' ''laptop'' (empty_cache\<lparr>writable := False\<rparr>) =
     (Inl (CacheError ''Failed to save data to cache''), empty_cache\<lparr>writable := False\<rparr>)"
  by (simp add: eval_collect)


end
